theory Spec2Isabelle
  imports Complex_Main "HOL-Library.Word"
begin

unbundle bit_operations_syntax

section \<open>The APC HID report decoder (apc_hid_parser)\<close>

text \<open>
  The decoder of the UPS bridge turns one raw HID report into updates of a metrics
  snapshot. The C types are kept: \<open>uint8_t\<close>, \<open>uint16_t\<close> and \<open>uint32_t\<close> are words,
  the two structs are records, the character arrays are strings. A \<open>float\<close> field is a
  \<open>real\<close>: the conversion of an 8 or 16 bit integer to \<open>float\<close> is exact, and the
  two divisions (by 100 and by 10) are the exact quotients, without the rounding of the
  single precision format.
\<close>

type_synonym u8 = "8 word"
type_synonym u16 = "16 word"
type_synonym u32 = "32 word"

record ups_status_t =
  online :: bool
  discharging :: bool
  charging :: bool
  low_battery :: bool
  overload :: bool
  replace_battery :: bool
  boost :: bool
  trim :: bool

record ups_metrics_t =
  battery_charge :: real
  battery_voltage :: real
  battery_runtime :: real
  battery_nominal_voltage :: real
  battery_warning_threshold :: real
  battery_type :: string
  battery_mfr_date :: string
  input_voltage :: real
  input_voltage_nominal :: real
  input_frequency :: real
  output_voltage :: real
  load_percent :: real
  nominal_power :: real
  high_voltage_transfer :: real
  low_voltage_transfer :: real
  input_sensitivity :: string
  last_transfer_reason :: string
  low_battery_charge_threshold :: real
  low_battery_runtime_threshold :: real
  shutdown_delay :: real
  shutdown_timer :: real
  reboot_timer :: real
  delay_before_reboot :: real
  delay_before_shutdown :: real
  firmware_version :: string
  driver_name :: string
  driver_state :: string
  driver_version :: string
  beeper_status :: string
  self_test_result :: string
  power_failure_status :: string
  status :: ups_status_t
  status_string :: string
  last_update_ms :: u32
  valid :: bool

subsection \<open>apc\_hid\_parser\_init\<close>

text \<open>\<open>memset\<close> to zero, then the five default strings.\<close>

definition zero_status :: ups_status_t where
  "zero_status = \<lparr> online = False, discharging = False, charging = False,
     low_battery = False, overload = False, replace_battery = False,
     boost = False, trim = False \<rparr>"

definition zero_metrics :: ups_metrics_t where
  "zero_metrics = \<lparr> battery_charge = 0, battery_voltage = 0, battery_runtime = 0,
     battery_nominal_voltage = 0, battery_warning_threshold = 0,
     battery_type = [], battery_mfr_date = [],
     input_voltage = 0, input_voltage_nominal = 0, input_frequency = 0,
     output_voltage = 0, load_percent = 0, nominal_power = 0,
     high_voltage_transfer = 0, low_voltage_transfer = 0,
     input_sensitivity = [], last_transfer_reason = [],
     low_battery_charge_threshold = 0, low_battery_runtime_threshold = 0,
     shutdown_delay = 0, shutdown_timer = 0, reboot_timer = 0,
     delay_before_reboot = 0, delay_before_shutdown = 0,
     firmware_version = [], driver_name = [], driver_state = [],
     driver_version = [], beeper_status = [], self_test_result = [],
     power_failure_status = [],
     status = zero_status, status_string = [],
     last_update_ms = 0, valid = False \<rparr>"

definition apc_hid_parser_init :: ups_metrics_t where
  "apc_hid_parser_init =
     zero_metrics \<lparr> valid := False,
       driver_name := ''esp32-usb-hid'',
       driver_version := ''1.0.0'',
       driver_state := ''running'',
       battery_type := ''PbAc'',
       power_failure_status := ''OK'' \<rparr>"

subsection \<open>apc\_hid\_format\_status\<close>

text \<open>
  \<open>strncat (buffer, src, n)\<close> appends at most \<open>n\<close> characters of \<open>src\<close>. The bound the
  source passes is \<open>buffer_size - strlen(buffer) - 1\<close> in \<open>size_t\<close> arithmetic, 32 bits
  wide on the ESP32, so it wraps around instead of going negative; so does the
  \<open>buffer_size - 1\<close> of the last call.
\<close>

definition strncat_c :: "string \<Rightarrow> string \<Rightarrow> nat \<Rightarrow> string" where
  "strncat_c buffer src n = buffer @ take n src"

definition room :: "nat \<Rightarrow> string \<Rightarrow> nat" where
  "room buffer_size buffer =
     nat ((int buffer_size - int (length buffer) - 1) mod 2 ^ 32)"

text \<open>One flag after the first: a separating space when the buffer is not empty, then the token.\<close>

definition append_flag :: "nat \<Rightarrow> bool \<Rightarrow> string \<Rightarrow> string \<Rightarrow> string" where
  "append_flag buffer_size flag token buffer =
     (if flag then
        (let b1 = (if length buffer > 0
                   then strncat_c buffer '' '' (room buffer_size buffer)
                   else buffer)
         in strncat_c b1 token (room buffer_size b1))
      else buffer)"

definition apc_hid_format_status :: "ups_status_t \<Rightarrow> nat \<Rightarrow> string" where
  "apc_hid_format_status st buffer_size =
     (let b0 = [];
          b1 = (if online st then strncat_c b0 ''OL'' (room buffer_size b0)
                else if discharging st then strncat_c b0 ''OB'' (room buffer_size b0)
                else b0);
          b2 = append_flag buffer_size (charging st) ''CHRG'' b1;
          b3 = append_flag buffer_size (low_battery st) ''LB'' b2;
          b4 = append_flag buffer_size (overload st) ''OVER'' b3;
          b5 = append_flag buffer_size (replace_battery st) ''RB'' b4;
          b6 = append_flag buffer_size (boost st) ''BOOST'' b5;
          b7 = append_flag buffer_size (trim st) ''TRIM'' b6
      in if length b7 = 0
         then strncat_c b7 ''UNKNOWN'' (nat ((int buffer_size - 1) mod 2 ^ 32))
         else b7)"

subsection \<open>Formatting with snprintf\<close>

text \<open>
  \<open>%d\<close> of a value that is never negative, \<open>%04d\<close> and \<open>%02d\<close> with their zero
  padding, and the cut of \<open>snprintf\<close> at one less than the size of the array.
\<close>

fun decimal :: "nat \<Rightarrow> string" where
  "decimal n =
     (if n < 10 then [''0123456789'' ! n]
      else decimal (n div 10) @ [''0123456789'' ! (n mod 10)])"

declare decimal.simps [simp del]

definition zero_pad :: "nat \<Rightarrow> string \<Rightarrow> string" where
  "zero_pad w s = replicate (w - length s) (CHR ''0'') @ s"

definition snprintf_cut :: "nat \<Rightarrow> string \<Rightarrow> string" where
  "snprintf_cut sz s = take (sz - 1) s"

subsection \<open>Reading the payload\<close>

text \<open>
  \<open>data\<close> is the buffer behind the pointer and \<open>length\<close> the byte count the caller
  announces. A read at an index the buffer does not have is no behaviour of the C
  program; the model returns \<open>Out_of_bounds_read\<close> for it. So is a store past the
  end of a local array of the logging helper: \<open>Log_buffer_overflow\<close>.
\<close>

datatype parse_error = Out_of_bounds_read | Log_buffer_overflow

definition reads :: "u8 list \<Rightarrow> nat \<Rightarrow> 'a \<Rightarrow> parse_error + 'a" where
  "reads data k r = (if k < length data then Inr r else Inl Out_of_bounds_read)"

text \<open>\<open>data[i] | (data[j] << 8)\<close>, stored in a \<open>uint16_t\<close>.\<close>

definition le16 :: "u8 \<Rightarrow> u8 \<Rightarrow> u16" where
  "le16 lo hi = ucast lo OR push_bit 8 (ucast hi)"

definition float_u8 :: "u8 \<Rightarrow> real" where
  "float_u8 b = real (unat b)"

definition float_u16 :: "u16 \<Rightarrow> real" where
  "float_u16 w = real (unat w)"

definition float_i16 :: "u16 \<Rightarrow> real" where
  "float_i16 w = real_of_int (sint w)"

text \<open>The label tables of the categorical fields.\<close>

definition beeper_state :: "string list" where
  "beeper_state = [''disabled'', ''enabled'', ''muted'']"

definition test_results :: "string list" where
  "test_results = [''No test initiated'', ''Test passed'', ''Test in progress'',
     ''General test failed'', ''Battery failed'', ''Deep battery test failed'',
     ''Test aborted'']"

definition reasons :: "string list" where
  "reasons = [''No transfer'', ''High line voltage'', ''Brownout'', ''Blackout'',
     ''Small momentary sag'', ''Deep momentary sag'', ''Small momentary spike'',
     ''Large momentary spike'', ''Self test'', ''Input frequency out of range'',
     ''Input voltage out of range'']"

definition sensitivity :: "string list" where
  "sensitivity = [''low'', ''medium'', ''high'']"

definition chemistry :: "string list" where
  "chemistry = [''Unknown'', ''PbAc'', ''Li-ion'', ''NiCd'', ''NiMH'']"

text \<open>\<open>strncpy (dst, src, sizeof dst - 1)\<close>: at most that many characters.\<close>

definition strncpy_c :: "nat \<Rightarrow> string \<Rightarrow> string" where
  "strncpy_c sz src = take (sz - 1) src"

subsection \<open>apc\_hid\_parse\_report\<close>

text \<open>
  \<open>log_hex_dump\<close> runs its loop while \<open>i < length\<close> and the hexadecimal text, three
  characters a byte in an array of 256, has not reached 252 characters: \<open>min length 84\<close>
  rounds. Round \<open>i\<close> reads \<open>data[i]\<close> and then stores into \<open>ascii_str[i]\<close>; after the
  loop the terminator is stored at \<open>ascii_str[rounds]\<close>. The array \<open>ascii_str\<close> has 64
  bytes, so with 64 rounds or more a store goes past its end. What the helper prints is
  not part of the model; its reads of \<open>data\<close> and its stores are. Of the two failures
  the result is the one the loop meets first.
\<close>

definition log_hex_dump_reads :: "nat \<Rightarrow> nat" where
  "log_hex_dump_reads len = min len 84"

definition log_hex_dump :: "u8 list \<Rightarrow> nat \<Rightarrow> parse_error option" where
  "log_hex_dump data len =
     (if length data < log_hex_dump_reads len \<and> length data \<le> 64 then Some Out_of_bounds_read
      else if 64 \<le> log_hex_dump_reads len then Some Log_buffer_overflow
      else None)"

text \<open>
  The \<open>switch\<close> on the report identifier, in the order of the source. The result is the
  flag \<open>updated\<close> and the target after the assignments of the case. The second argument
  of \<open>reads\<close> is the highest index the case reads.
\<close>

definition decode_fields ::
  "u8 \<Rightarrow> u8 list \<Rightarrow> nat \<Rightarrow> ups_metrics_t \<Rightarrow> parse_error + (bool \<times> ups_metrics_t)" where
  "decode_fields report_id data len target =
    (if report_id = 0x0C then
       (if len \<ge> 4 then
          reads data 3 (True, target \<lparr> battery_charge := float_u8 (data ! 1),
             battery_runtime := float_u16 (le16 (data ! 2) (data ! 3)) \<rparr>)
        else Inr (False, target))
     else if report_id = 0x06 then
       (if len \<ge> 4 then
          reads data 3 (True, target \<lparr> status := (status target)
             \<lparr> online := (data ! 3 AND 0x08) \<noteq> 0,
               discharging := (data ! 3 AND 0x01) \<noteq> 0,
               charging := (data ! 3 AND 0x02) \<noteq> 0,
               low_battery := (data ! 3 AND 0x04) \<noteq> 0 \<rparr> \<rparr>)
        else Inr (False, target))
     else if report_id = 0x08 then
       (if len \<ge> 3 then
          reads data 2 (True, target \<lparr> battery_nominal_voltage :=
             float_u16 (le16 (data ! 1) (data ! 2)) / 100 \<rparr>)
        else Inr (False, target))
     else if report_id = 0x09 then
       (if len \<ge> 3 then
          reads data 2 (True, target \<lparr> battery_voltage :=
             float_u16 (le16 (data ! 1) (data ! 2)) / 100 \<rparr>)
        else Inr (False, target))
     else if report_id = 0x0B then
       (if len \<ge> 2 then
          reads data 1 (True, target \<lparr> battery_nominal_voltage := float_u8 (data ! 1) \<rparr>)
        else Inr (False, target))
     else if report_id = 0x0D then
       (if len \<ge> 2 then
          reads data 1 (True, target \<lparr> battery_voltage := float_u8 (data ! 1) / 10 \<rparr>)
        else Inr (False, target))
     else if report_id = 0x0E then
       (if len \<ge> 2 then reads data 1 (False, target) else Inr (False, target))
     else if report_id = 0x0F then
       (if len \<ge> 2 then
          reads data 1 (True, target \<lparr> battery_warning_threshold := float_u8 (data ! 1) \<rparr>)
        else Inr (False, target))
     else if report_id = 0x10 then
       (if len \<ge> 2 then
          reads data 1
            (if data ! 1 < 3 then
               (True, target \<lparr> beeper_status :=
                  strncpy_c 16 (beeper_state ! unat (data ! 1)) \<rparr>)
             else (False, target))
        else Inr (False, target))
     else if report_id = 0x11 then
       (if len \<ge> 2 then
          reads data 1 (True, target \<lparr> low_battery_charge_threshold := float_u8 (data ! 1) \<rparr>)
        else Inr (False, target))
     else if report_id = 0x12 then
       (if len \<ge> 3 then
          reads data 2 (True, target \<lparr> low_battery_runtime_threshold :=
             float_u16 (le16 (data ! 1) (data ! 2)) \<rparr>)
        else Inr (False, target))
     else if report_id = 0x15 then
       (if len \<ge> 3 then
          reads data 2 (True, target \<lparr> shutdown_timer :=
             float_i16 (le16 (data ! 1) (data ! 2)) \<rparr>)
        else Inr (False, target))
     else if report_id = 0x16 then
       (if len \<ge> 2 then
          reads data 1 (True, target \<lparr> status := (status target)
             \<lparr> online := (data ! 1 AND 0x01) \<noteq> 0,
               discharging := (data ! 1 AND 0x02) \<noteq> 0,
               charging := (data ! 1 AND 0x04) \<noteq> 0,
               low_battery := (data ! 1 AND 0x08) \<noteq> 0,
               overload := (data ! 1 AND 0x10) \<noteq> 0,
               replace_battery := (data ! 1 AND 0x20) \<noteq> 0,
               boost := (data ! 1 AND 0x40) \<noteq> 0,
               trim := (data ! 1 AND 0x80) \<noteq> 0 \<rparr> \<rparr>)
        else Inr (False, target))
     else if report_id = 0x17 then
       (if len \<ge> 3 then
          reads data 2 (True, target \<lparr> reboot_timer :=
             float_u16 (le16 (data ! 1) (data ! 2)) \<rparr>)
        else Inr (False, target))
     else if report_id = 0x18 then
       (if len \<ge> 2 then
          reads data 1
            (if data ! 1 < 7 then
               (True, target \<lparr> self_test_result :=
                  strncpy_c 64 (test_results ! unat (data ! 1)) \<rparr>)
             else (False, target))
        else Inr (False, target))
     else if report_id = 0x1C then
       (if len \<ge> 4 then
          reads data (if len > 4 then 4 else 3)
            (True, target \<lparr> battery_mfr_date := snprintf_cut 16
               (zero_pad 4 (decimal (unat (le16 (data ! 1) (data ! 2)))) @ ''/'' @
                zero_pad 2 (decimal (unat (if len > 3 then data ! 3 else 1))) @ ''/'' @
                zero_pad 2 (decimal (unat (if len > 4 then data ! 4 else 1)))) \<rparr>)
        else Inr (False, target))
     else if report_id = 0x20 then
       (if len \<ge> 3 then
          reads data 2 (True, target \<lparr> battery_mfr_date := snprintf_cut 16
             (decimal (unat (le16 (data ! 1) (data ! 2))) @ '' days'') \<rparr>)
        else Inr (False, target))
     else if report_id = 0x13 then
       (if len \<ge> 2 then
          reads data 1 (True, target \<lparr> delay_before_reboot := float_u8 (data ! 1) \<rparr>)
        else Inr (False, target))
     else if report_id = 0x14 then
       (if len \<ge> 2 then
          reads data 1 (True, target \<lparr> delay_before_shutdown := float_u8 (data ! 1) \<rparr>)
        else Inr (False, target))
     else if report_id = 0x24 then
       (if len \<ge> 3 then
          reads data 2 (True, target \<lparr> low_battery_runtime_threshold :=
             float_u16 (le16 (data ! 1) (data ! 2)) \<rparr>)
        else Inr (False, target))
     else if report_id = 0x21 then
       (if len \<ge> 2 then
          reads data 1
            (if data ! 1 < 11 then
               (True, target \<lparr> last_transfer_reason :=
                  strncpy_c 64 (reasons ! unat (data ! 1)) \<rparr>)
             else (False, target))
        else Inr (False, target))
     else if report_id = 0x25 then
       (if len \<ge> 3 then
          reads data 2 (True, target \<lparr> nominal_power :=
             float_u16 (le16 (data ! 1) (data ! 2)) \<rparr>)
        else Inr (False, target))
     else if report_id = 0x30 then
       (if len \<ge> 2 then
          reads data 1 (True, target \<lparr> input_voltage_nominal := float_u8 (data ! 1) \<rparr>)
        else Inr (False, target))
     else if report_id = 0x31 then
       (if len \<ge> 3 then
          reads data 2 (True, target \<lparr> input_voltage :=
             float_u16 (le16 (data ! 1) (data ! 2)) \<rparr>)
        else Inr (False, target))
     else if report_id = 0x32 then
       (if len \<ge> 3 then
          reads data 2 (True, target \<lparr> low_voltage_transfer :=
             float_u16 (le16 (data ! 1) (data ! 2)) \<rparr>)
        else Inr (False, target))
     else if report_id = 0x33 then
       (if len \<ge> 3 then
          reads data 2 (True, target \<lparr> high_voltage_transfer :=
             float_u16 (le16 (data ! 1) (data ! 2)) \<rparr>)
        else Inr (False, target))
     else if report_id = 0x50 then
       (if len \<ge> 2 then
          reads data 1 (True, target \<lparr> load_percent := float_u8 (data ! 1) \<rparr>)
        else Inr (False, target))
     else if report_id = 0x35 then
       (if len \<ge> 2 then
          reads data 1
            (if data ! 1 < 3 then
               (True, target \<lparr> input_sensitivity :=
                  strncpy_c 16 (sensitivity ! unat (data ! 1)) \<rparr>)
             else (False, target))
        else Inr (False, target))
     else if report_id = 0x36 then
       (if len \<ge> 2 then
          reads data 1
            (if data ! 1 > 0 then
               (True, target \<lparr> input_frequency := float_u8 (data ! 1) \<rparr>)
             else (False, target))
        else Inr (False, target))
     else if report_id = 0x03 then
       (if len \<ge> 2 then
          reads data 1
            (if data ! 1 < 5 then
               (True, target \<lparr> battery_type :=
                  strncpy_c 16 (chemistry ! unat (data ! 1)) \<rparr>)
             else (False, target))
        else Inr (False, target))
     else if report_id = 0x07 then
       (if len \<ge> 3 then reads data 3 (False, target) else Inr (False, target))
     else if report_id = 0x34 then
       (if len \<ge> 2 then reads data 1 (True, target) else Inr (False, target))
     else if report_id = 0x52 then
       (if len \<ge> 3 then
          reads data 2 (True, target \<lparr> nominal_power :=
             float_u16 (le16 (data ! 1) (data ! 2)) \<rparr>)
        else Inr (False, target))
     else if report_id = 0x60 then
       (if len \<ge> 2 then
          reads data 2 (True, target \<lparr> firmware_version := snprintf_cut 32
             (decimal (unat (data ! 1)) @ ''.'' @ decimal (unat (data ! 2))) \<rparr>)
        else Inr (False, target))
     else Inr (False, target))"

text \<open>
  After the \<open>switch\<close>: when a case has set \<open>updated\<close>, the timestamp, the validity flag
  and the status string of the target are written. \<open>now_ms\<close> is the value of
  \<open>xTaskGetTickCount() * portTICK_PERIOD_MS\<close> at the call.
\<close>

definition finish_update :: "u32 \<Rightarrow> bool \<times> ups_metrics_t \<Rightarrow> bool \<times> ups_metrics_t" where
  "finish_update now_ms r =
     (if fst r then
        (True, (snd r) \<lparr> last_update_ms := now_ms, valid := True,
           status_string := apc_hid_format_status (status (snd r)) 64 \<rparr>)
      else r)"

text \<open>
  The whole call. \<open>data = None\<close> is the null pointer. \<open>metrics = None\<close> is the null
  pointer too: the target is then the module's own \<open>current_metrics\<close>, and otherwise the
  caller's struct. The result is the returned flag, the caller's struct and
  \<open>current_metrics\<close> after the call. The buffer and the structs are taken to be
  separate objects, so the final \<open>memcpy\<close>, guarded by
  \<open>target == &current_metrics && metrics != NULL\<close>, never runs.
\<close>

definition apc_hid_parse_report ::
  "u8 \<Rightarrow> u8 list option \<Rightarrow> nat \<Rightarrow> ups_metrics_t option \<Rightarrow> u32 \<Rightarrow> ups_metrics_t
     \<Rightarrow> parse_error + (bool \<times> ups_metrics_t option \<times> ups_metrics_t)" where
  "apc_hid_parse_report report_id data len metrics now_ms current_metrics =
     (case data of
        None \<Rightarrow> Inr (False, metrics, current_metrics)
      | Some bytes \<Rightarrow>
          if len = 0 then Inr (False, metrics, current_metrics)
          else
            (case log_hex_dump bytes len of
               Some e \<Rightarrow> Inl e
             | None \<Rightarrow>
                 (case decode_fields report_id bytes len
                         (case metrics of None \<Rightarrow> current_metrics | Some m \<Rightarrow> m) of
                    Inl e \<Rightarrow> Inl e
                  | Inr r \<Rightarrow>
                      (case metrics of
                         None \<Rightarrow> Inr (fst (finish_update now_ms r), None,
                                      snd (finish_update now_ms r))
                       | Some m \<Rightarrow> Inr (fst (finish_update now_ms r),
                                      Some (snd (finish_update now_ms r)),
                                      current_metrics)))))"

text \<open>The snapshot a call writes to: the caller's struct, or \<open>current_metrics\<close>.\<close>

definition target_of :: "ups_metrics_t option \<Rightarrow> ups_metrics_t \<Rightarrow> ups_metrics_t" where
  "target_of metrics current_metrics =
     (case metrics of None \<Rightarrow> current_metrics | Some m \<Rightarrow> m)"

section \<open>The transfer coordinator (usb_host_manager)\<close>

text \<open>
  \<open>esp_err_t\<close> is an \<open>int\<close>; the codes are those of ESP-IDF's \<open>esp_err.h\<close>. The
  transfer statuses are the enumeration of ESP-IDF's \<open>usb_types_stack.h\<close>.
\<close>

type_synonym esp_err_t = int

definition ESP_OK :: esp_err_t where "ESP_OK = 0"
definition ESP_FAIL :: esp_err_t where "ESP_FAIL = - 1"
definition ESP_ERR_NO_MEM :: esp_err_t where "ESP_ERR_NO_MEM = 0x101"
definition ESP_ERR_INVALID_STATE :: esp_err_t where "ESP_ERR_INVALID_STATE = 0x103"
definition ESP_ERR_INVALID_SIZE :: esp_err_t where "ESP_ERR_INVALID_SIZE = 0x104"
definition ESP_ERR_NOT_SUPPORTED :: esp_err_t where "ESP_ERR_NOT_SUPPORTED = 0x106"
definition ESP_ERR_TIMEOUT :: esp_err_t where "ESP_ERR_TIMEOUT = 0x107"

datatype usb_transfer_status_t =
    USB_TRANSFER_STATUS_COMPLETED
  | USB_TRANSFER_STATUS_ERROR
  | USB_TRANSFER_STATUS_TIMED_OUT
  | USB_TRANSFER_STATUS_CANCELED
  | USB_TRANSFER_STATUS_STALL
  | USB_TRANSFER_STATUS_OVERFLOW
  | USB_TRANSFER_STATUS_SKIPPED
  | USB_TRANSFER_STATUS_NO_DEVICE

text \<open>
  What the USB host library and FreeRTOS answer during one call: whether \<open>ups_device\<close>
  is set, whether the transfer mutex is obtained within its five seconds, whether the
  semaphore \<open>transfer_done\<close> exists already and whether creating it succeeds, the results
  of allocating and of submitting the transfer, the answer of each
  \<open>xSemaphoreTake (transfer_done, 0)\<close> of the call in turn (true once the completion
  callback has given the semaphore), and the transfer's status, byte count and data
  buffer as the call reads them.
\<close>

record usb_env =
  ups_device_set :: bool
  mutex_taken :: bool
  transfer_done_exists :: bool
  semaphore_created :: bool
  alloc_err :: esp_err_t
  submit_err :: esp_err_t
  sem_take :: "nat \<Rightarrow> bool"
  xfer_status :: usb_transfer_status_t
  actual_num_bytes :: int
  data_buffer :: "u8 list"

text \<open>The steps of a call that matter for the life of the transfer, in the order they happen.\<close>

datatype xfer_event =
    Mutex_take
  | Mutex_give
  | Transfer_alloc
  | Transfer_submit
  | Completion_observed
  | Transfer_free

text \<open>
  What a call returns: the error code, the value stored in \<open>*actual_length\<close> and the
  bytes copied into the caller's buffer (when the call writes them), and its steps.
\<close>

record transfer_result =
  err :: esp_err_t
  actual_length :: "u32 option"
  copied :: "u8 list option"
  trace :: "xfer_event list"

definition failed :: "esp_err_t \<Rightarrow> xfer_event list \<Rightarrow> transfer_result" where
  "failed e tr = \<lparr> err = e, actual_length = None, copied = None, trace = tr \<rparr>"

definition max_wait_ms :: int where "max_wait_ms = 2000"
definition poll_interval_ms :: int where "poll_interval_ms = 10"

text \<open>
  The bounded wait of both operations:
  \<open>while (waited_ms < max_wait_ms && !transfer_complete)\<close>, each round servicing the
  event queues and then trying the semaphore once. \<open>polls\<close> counts the attempts made.
  The result is \<open>transfer_complete\<close> and the count.
\<close>

function wait_for_callback :: "(nat \<Rightarrow> bool) \<Rightarrow> int \<Rightarrow> nat \<Rightarrow> bool \<times> nat" where
  "wait_for_callback sem waited_ms polls =
     (if waited_ms < max_wait_ms then
        (if sem polls then (True, Suc polls)
         else wait_for_callback sem (waited_ms + poll_interval_ms) (Suc polls))
      else (False, polls))"
  by pat_completeness auto
termination
  by (relation "measure (\<lambda>(sem, waited_ms, polls). nat (max_wait_ms - waited_ms))")
     (auto simp: max_wait_ms_def poll_interval_ms_def)

declare wait_for_callback.simps [simp del]

text \<open>
  The second wait of \<open>read_hid_report\<close>, after its timeout: \<open>while (!transfer_complete)\<close>
  with no bound. It returns only when the semaphore is obtained; \<open>None\<close> is the loop that
  never ends.
\<close>

partial_function (option) wait_for_late_callback :: "(nat \<Rightarrow> bool) \<Rightarrow> nat \<Rightarrow> nat option" where
  "wait_for_late_callback sem polls =
     (if sem polls then Some (Suc polls) else wait_for_late_callback sem (Suc polls))"

subsection \<open>get\_hid\_report\<close>

text \<open>
  The request of one feature report. The setup packet (GET\_REPORT, feature report,
  the report identifier) only travels to the device and is left out; the device's answer
  is in the environment. \<open>*actual_length = transfer->actual_num_bytes - 8\<close> is computed
  in \<open>size_t\<close>, 32 bits wide.
\<close>

definition get_hid_report :: "usb_env \<Rightarrow> nat \<Rightarrow> transfer_result" where
  "get_hid_report env buffer_size =
     (if \<not> ups_device_set env then failed ESP_ERR_INVALID_STATE []
      else if \<not> mutex_taken env then failed ESP_ERR_TIMEOUT []
      else if alloc_err env \<noteq> ESP_OK then failed (alloc_err env) [Mutex_take, Mutex_give]
      else if \<not> transfer_done_exists env \<and> \<not> semaphore_created env then
        failed ESP_ERR_NO_MEM [Mutex_take, Transfer_alloc, Transfer_free, Mutex_give]
      else if submit_err env \<noteq> ESP_OK then
        failed (submit_err env) [Mutex_take, Transfer_alloc, Transfer_free, Mutex_give]
      else if fst (wait_for_callback (sem_take env) 0 0) then
        (let tr = [Mutex_take, Transfer_alloc, Transfer_submit, Completion_observed,
                   Transfer_free, Mutex_give]
         in if xfer_status env = USB_TRANSFER_STATUS_COMPLETED then
              (let n = (word_of_int (actual_num_bytes env - 8) :: u32)
               in if n > 0 \<and> unat n \<le> buffer_size then
                    \<lparr> err = ESP_OK, actual_length = Some n,
                      copied = Some (take (unat n) (drop 8 (data_buffer env))), trace = tr \<rparr>
                  else \<lparr> err = ESP_ERR_INVALID_SIZE, actual_length = Some n,
                         copied = None, trace = tr \<rparr>)
            else if xfer_status env = USB_TRANSFER_STATUS_STALL then
              failed ESP_ERR_NOT_SUPPORTED tr
            else failed ESP_FAIL tr)
      else
        failed ESP_ERR_NOT_SUPPORTED
          [Mutex_take, Transfer_alloc, Transfer_submit, Transfer_free, Mutex_give])"

subsection \<open>read\_hid\_report\<close>

text \<open>
  The read of one pushed report. After the bounded wait has run out, the call keeps
  waiting with no bound and frees the transfer when the semaphore is obtained; the
  result is \<open>None\<close> when that never happens and the call does not return. The byte
  count of \<open>memcpy\<close> is \<open>transfer->actual_num_bytes\<close> as a \<open>size_t\<close>.
\<close>

definition read_hid_report :: "usb_env \<Rightarrow> nat \<Rightarrow> transfer_result option" where
  "read_hid_report env buffer_size =
     (if \<not> ups_device_set env then Some (failed ESP_ERR_INVALID_STATE [])
      else if \<not> mutex_taken env then Some (failed ESP_ERR_TIMEOUT [])
      else if \<not> transfer_done_exists env \<and> \<not> semaphore_created env then
        Some (failed ESP_ERR_NO_MEM [Mutex_take, Mutex_give])
      else if alloc_err env \<noteq> ESP_OK then
        Some (failed (alloc_err env) [Mutex_take, Mutex_give])
      else if submit_err env \<noteq> ESP_OK then
        Some (failed (submit_err env)
                [Mutex_take, Transfer_alloc, Transfer_free, Mutex_give])
      else if fst (wait_for_callback (sem_take env) 0 0) then
        (let tr = [Mutex_take, Transfer_alloc, Transfer_submit, Completion_observed,
                   Transfer_free, Mutex_give]
         in if xfer_status env = USB_TRANSFER_STATUS_COMPLETED then
              Some \<lparr> err = ESP_OK,
                     actual_length = Some (word_of_int (actual_num_bytes env)),
                     copied = Some (take (unat (word_of_int (actual_num_bytes env) :: u32))
                                      (data_buffer env)),
                     trace = tr \<rparr>
            else if xfer_status env = USB_TRANSFER_STATUS_TIMED_OUT then
              Some (failed ESP_ERR_TIMEOUT tr)
            else if xfer_status env = USB_TRANSFER_STATUS_STALL then
              Some (failed ESP_FAIL tr)
            else if xfer_status env = USB_TRANSFER_STATUS_ERROR then
              Some (failed ESP_FAIL tr)
            else if xfer_status env = USB_TRANSFER_STATUS_NO_DEVICE then
              Some (failed ESP_FAIL tr)
            else Some (failed ESP_FAIL tr))
      else
        (case wait_for_late_callback (sem_take env)
                (snd (wait_for_callback (sem_take env) 0 0)) of
           None \<Rightarrow> None
         | Some polls \<Rightarrow>
             Some (failed ESP_ERR_TIMEOUT
                     [Mutex_take, Transfer_alloc, Transfer_submit, Completion_observed,
                      Transfer_free, Mutex_give])))"

subsection \<open>The life of a transfer\<close>

text \<open>
  A trace releases its transfer safely when every \<open>Transfer_free\<close> of a submitted
  transfer comes after the completion has been observed. The two flags are "submitted"
  and "completion observed" so far.
\<close>

fun release_gated :: "bool \<Rightarrow> bool \<Rightarrow> xfer_event list \<Rightarrow> bool" where
  "release_gated submitted completed [] = True"
| "release_gated submitted completed (Transfer_submit # es) = release_gated True completed es"
| "release_gated submitted completed (Completion_observed # es) = release_gated submitted True es"
| "release_gated submitted completed (Transfer_free # es) =
     ((if submitted then completed else True) \<and> release_gated submitted completed es)"
| "release_gated submitted completed (e # es) = release_gated submitted completed es"

section \<open>The poll scheduler's use of the decoder (usb_host_task)\<close>

text \<open>
  After a read or a request the task calls the decoder only when the transfer returned
  \<open>ESP_OK\<close> with a positive length, always with a null \<open>metrics\<close> pointer, so the target
  is \<open>current_metrics\<close>. The identifier is the first byte of the buffer for a pushed
  report, and the requested identifier for a polled one.
\<close>

definition on_parsed ::
  "parse_error + (bool \<times> ups_metrics_t option \<times> ups_metrics_t)
     \<Rightarrow> parse_error + (bool \<times> ups_metrics_t)" where
  "on_parsed r = (case r of Inl e \<Rightarrow> Inl e | Inr x \<Rightarrow> Inr (fst x, snd (snd x)))"

definition on_pushed_report ::
  "esp_err_t \<Rightarrow> u8 list \<Rightarrow> nat \<Rightarrow> u32 \<Rightarrow> ups_metrics_t \<Rightarrow> parse_error + (bool \<times> ups_metrics_t)" where
  "on_pushed_report e report_buffer report_len now_ms current_metrics =
     (if e = ESP_OK \<and> report_len > 0 then
        (if length report_buffer = 0 then Inl Out_of_bounds_read
         else on_parsed (apc_hid_parse_report (report_buffer ! 0) (Some report_buffer)
                 report_len None now_ms current_metrics))
      else Inr (False, current_metrics))"

definition on_polled_report ::
  "u8 \<Rightarrow> esp_err_t \<Rightarrow> u8 list \<Rightarrow> nat \<Rightarrow> u32 \<Rightarrow> ups_metrics_t
     \<Rightarrow> parse_error + (bool \<times> ups_metrics_t)" where
  "on_polled_report report_id e report_buffer report_len now_ms current_metrics =
     (if e = ESP_OK \<and> report_len > 0 then
        on_parsed (apc_hid_parse_report report_id (Some report_buffer)
           report_len None now_ms current_metrics)
      else Inr (False, current_metrics))"

section \<open>Notions the properties are stated with\<close>

text \<open>
  A history of the snapshot \<open>current_metrics\<close>: any call of the decoder, or the outcome
  of a read or of a request as the task handles it. Each step yields whether it updated
  \<open>current_metrics\<close>.
\<close>

datatype step =
    Decoder_call u8 "u8 list option" nat "ups_metrics_t option" u32
  | Pushed_result esp_err_t "u8 list" nat u32
  | Polled_result u8 esp_err_t "u8 list" nat u32

fun do_step :: "step \<Rightarrow> ups_metrics_t \<Rightarrow> parse_error + (bool \<times> ups_metrics_t)" where
  "do_step (Decoder_call report_id data len metrics now_ms) cur =
     (case apc_hid_parse_report report_id data len metrics now_ms cur of
        Inl e \<Rightarrow> Inl e
      | Inr x \<Rightarrow> Inr ((case metrics of None \<Rightarrow> fst x | Some m \<Rightarrow> False), snd (snd x)))"
| "do_step (Pushed_result e buf len now_ms) cur = on_pushed_report e buf len now_ms cur"
| "do_step (Polled_result report_id e buf len now_ms) cur =
     on_polled_report report_id e buf len now_ms cur"

fun run_steps :: "step list \<Rightarrow> ups_metrics_t \<Rightarrow> parse_error + (bool list \<times> ups_metrics_t)" where
  "run_steps [] cur = Inr ([], cur)"
| "run_steps (s # ss) cur =
     (case do_step s cur of
        Inl e \<Rightarrow> Inl e
      | Inr x \<Rightarrow>
          (case run_steps ss (snd x) of
             Inl e \<Rightarrow> Inl e
           | Inr y \<Rightarrow> Inr (fst x # fst y, snd y)))"

text \<open>
  The length each identifier requires: the number of payload bytes its case of the
  \<open>switch\<close> takes, one more than the highest index it reads (for 0x1C without the
  optional fifth byte); \<open>None\<close> for an identifier with no case. This is read off the
  indices the cases use, not off their guards: the case 0x60 takes \<open>data[1]\<close> and
  \<open>data[2]\<close>, and the case 0x07 logs \<open>data[1]\<close> to \<open>data[3]\<close>.
\<close>

definition required_length :: "u8 \<Rightarrow> nat option" where
  "required_length report_id =
     (if report_id \<in> {0x0C, 0x06, 0x1C, 0x07} then Some 4
      else if report_id \<in> {0x08, 0x09, 0x12, 0x15, 0x17, 0x20, 0x24, 0x25, 0x31, 0x32,
                            0x33, 0x52, 0x60} then Some 3
      else if report_id \<in> {0x0B, 0x0D, 0x0E, 0x0F, 0x10, 0x11, 0x16, 0x18, 0x13, 0x14,
                            0x21, 0x30, 0x50, 0x35, 0x36, 0x03, 0x34} then Some 2
      else None)"

text \<open>The tokens of a status string: its maximal runs of characters other than the space.\<close>

fun tokens_from :: "string \<Rightarrow> string \<Rightarrow> string list" where
  "tokens_from cur [] = (if cur = [] then [] else [cur])"
| "tokens_from cur (c # cs) =
     (if c = CHR '' '' then (if cur = [] then tokens_from [] cs else cur # tokens_from [] cs)
      else tokens_from (cur @ [c]) cs)"

definition tokens :: "string \<Rightarrow> string list" where
  "tokens s = tokens_from [] s"

text \<open>
  The status string as the specification words it: the tokens of the flags that are set,
  in the fixed order, "OL" before "OB" and only one of the two.
\<close>

definition flag_tokens :: "ups_status_t \<Rightarrow> string list" where
  "flag_tokens st =
     (if online st then [''OL''] else if discharging st then [''OB''] else []) @
     (if charging st then [''CHRG''] else []) @
     (if low_battery st then [''LB''] else []) @
     (if overload st then [''OVER''] else []) @
     (if replace_battery st then [''RB''] else []) @
     (if boost st then [''BOOST''] else []) @
     (if trim st then [''TRIM''] else [])"

text \<open>
  The snapshot a call has written to, when it returned true: the caller's struct, or
  \<open>current_metrics\<close> for a null \<open>metrics\<close> pointer.
\<close>

definition updated_target ::
  "parse_error + (bool \<times> ups_metrics_t option \<times> ups_metrics_t) \<Rightarrow> ups_metrics_t option" where
  "updated_target r =
     (case r of
        Inl e \<Rightarrow> None
      | Inr x \<Rightarrow> if fst x then Some (target_of (fst (snd x)) (snd (snd x))) else None)"

text \<open>
  A call of \<open>get_hid_report\<close> or \<open>read_hid_report\<close> gets as far as submitting its
  transfer when the device is attached, the mutex is obtained, the allocation and the
  submission succeed and the semaphore exists or can be created.
\<close>

definition submitted :: "usb_env \<Rightarrow> bool" where
  "submitted env =
     (ups_device_set env \<and> mutex_taken env \<and> alloc_err env = ESP_OK \<and>
      (transfer_done_exists env \<or> semaphore_created env) \<and> submit_err env = ESP_OK)"

text \<open>
  Two devices to run the calls on. The first answers late: its completion callback fires
  only after the 200 attempts of the bounded wait. The second stalls the request and
  completes at the fourth attempt.
\<close>

definition late_device :: usb_env where
  "late_device = \<lparr> ups_device_set = True, mutex_taken = True, transfer_done_exists = True,
     semaphore_created = True, alloc_err = ESP_OK, submit_err = ESP_OK,
     sem_take = (\<lambda>i. 200 \<le> i), xfer_status = USB_TRANSFER_STATUS_COMPLETED,
     actual_num_bytes = 11, data_buffer = replicate 8 0 @ [0x09, 0x5A, 0x05] \<rparr>"

definition stalling_device :: usb_env where
  "stalling_device = \<lparr> ups_device_set = True, mutex_taken = True, transfer_done_exists = True,
     semaphore_created = True, alloc_err = ESP_OK, submit_err = ESP_OK,
     sem_take = (\<lambda>i. 3 \<le> i), xfer_status = USB_TRANSFER_STATUS_STALL,
     actual_num_bytes = 0, data_buffer = replicate 8 0 \<rparr>"

text \<open>A history for the validity flag: a timeout, a decoded report, a stalled request,
  a short payload, an unknown identifier and a call with a null buffer.\<close>

definition sample_history :: "step list" where
  "sample_history =
     [Pushed_result ESP_ERR_TIMEOUT (replicate 64 0) 0 10,
      Polled_result 0x0C ESP_OK ([0x0C, 100, 0x10, 0x0E] @ replicate 60 0) 4 20,
      Polled_result 0x09 ESP_ERR_NOT_SUPPORTED (replicate 64 0) 0 30,
      Pushed_result ESP_OK ([0x0C, 0x01] @ replicate 62 0) 2 40,
      Pushed_result ESP_OK ([0xFF, 0x01] @ replicate 62 0) 2 50,
      Decoder_call 0x16 None 2 None 60]"

section \<open>Properties of the status string\<close>

lemma room_fits:
  assumes "length b < n" and "n < 4294967296"
  shows "room n b = n - length b - 1"
proof -
  have "0 \<le> int n - int (length b) - 1" using assms by linarith
  moreover have "int n - int (length b) - 1 < 4294967296" using assms by linarith
  ultimately have "(int n - int (length b) - 1) mod 4294967296 = int n - int (length b) - 1"
    by (rule mod_pos_pos_trivial)
  then show ?thesis using assms by (simp add: room_def nat_diff_distrib)
qed

lemma strncat_room:
  "length b + length t < n \<Longrightarrow> n < 4294967296 \<Longrightarrow> strncat_c b t (room n b) = b @ t"
  by (simp add: room_fits strncat_c_def)

lemma append_flag_fits:
  "length b + length t + 1 < n \<Longrightarrow> n < 4294967296 \<Longrightarrow>
   append_flag n flag t b = (if flag then (if b = [] then t else b @ '' '' @ t) else b)"
  by (simp add: append_flag_def strncat_room Let_def)

lemma append_flag_length:
  "length b + length t + 1 < n \<Longrightarrow> n < 4294967296 \<Longrightarrow>
   length (append_flag n flag t b) \<le> length b + length t + 1"
  by (simp add: append_flag_fits)

lemma append_flag_appends: "\<exists>x. append_flag n flag t b = b @ x"
  by (simp add: append_flag_def strncat_c_def Let_def)

lemma tokens_from_word:
  "CHR '' '' \<notin> set t \<Longrightarrow> cur @ t \<noteq> [] \<Longrightarrow> tokens_from cur t = [cur @ t]"
  by (induction t arbitrary: cur) auto

lemma tokens_from_space:
  "tokens_from cur (b @ CHR '' '' # t) = tokens_from cur b @ tokens_from [] t"
  by (induction b arbitrary: cur) auto

lemma tokens_append_flag:
  assumes "length b + length t + 1 < n" and "n < 4294967296"
    and "CHR '' '' \<notin> set t" and "t \<noteq> []"
  shows "tokens (append_flag n flag t b) = tokens b @ (if flag then [t] else [])"
proof -
  have w: "tokens_from [] t = [t]" using assms(3,4) tokens_from_word [of t "[]"] by simp
  show ?thesis
    using assms(1,2) w tokens_from_space [of "[]" b t]
    by (simp add: append_flag_fits tokens_def)
qed

text \<open>
  With room for the longest string (29 characters and the terminator), the status string
  is made of exactly the tokens of the flags that are set, or of "UNKNOWN" alone, and
  starts with "OL" when the online flag is set.
\<close>

lemma format_status_tokens:
  assumes n: "30 \<le> n" "n < 4294967296"
  shows "tokens (apc_hid_format_status st n) =
           (if flag_tokens st = [] then [''UNKNOWN''] else flag_tokens st)"
    and "online st \<Longrightarrow> take 2 (apc_hid_format_status st n) = ''OL''"
proof -
  define b1 where "b1 = (if online st then ''OL'' else if discharging st then ''OB'' else [])"
  define b2 where "b2 = append_flag n (charging st) ''CHRG'' b1"
  define b3 where "b3 = append_flag n (low_battery st) ''LB'' b2"
  define b4 where "b4 = append_flag n (overload st) ''OVER'' b3"
  define b5 where "b5 = append_flag n (replace_battery st) ''RB'' b4"
  define b6 where "b6 = append_flag n (boost st) ''BOOST'' b5"
  define b7 where "b7 = append_flag n (trim st) ''TRIM'' b6"
  have l1: "length b1 \<le> 2" by (simp add: b1_def)
  have l2: "length b2 \<le> 7"
    using append_flag_length [of b1 "''CHRG''" n "charging st"] l1 n by (simp add: b2_def)
  have l3: "length b3 \<le> 10"
    using append_flag_length [of b2 "''LB''" n "low_battery st"] l2 n by (simp add: b3_def)
  have l4: "length b4 \<le> 15"
    using append_flag_length [of b3 "''OVER''" n "overload st"] l3 n by (simp add: b4_def)
  have l5: "length b5 \<le> 18"
    using append_flag_length [of b4 "''RB''" n "replace_battery st"] l4 n by (simp add: b5_def)
  have l6: "length b6 \<le> 24"
    using append_flag_length [of b5 "''BOOST''" n "boost st"] l5 n by (simp add: b6_def)
  have t1: "tokens b1 =
      (if online st then [''OL''] else if discharging st then [''OB''] else [])"
    by (simp add: b1_def tokens_def)
  have t2: "tokens b2 = tokens b1 @ (if charging st then [''CHRG''] else [])"
    unfolding b2_def using l1 n by (intro tokens_append_flag) auto
  have t3: "tokens b3 = tokens b2 @ (if low_battery st then [''LB''] else [])"
    unfolding b3_def using l2 n by (intro tokens_append_flag) auto
  have t4: "tokens b4 = tokens b3 @ (if overload st then [''OVER''] else [])"
    unfolding b4_def using l3 n by (intro tokens_append_flag) auto
  have t5: "tokens b5 = tokens b4 @ (if replace_battery st then [''RB''] else [])"
    unfolding b5_def using l4 n by (intro tokens_append_flag) auto
  have t6: "tokens b6 = tokens b5 @ (if boost st then [''BOOST''] else [])"
    unfolding b6_def using l5 n by (intro tokens_append_flag) auto
  have t7: "tokens b7 = tokens b6 @ (if trim st then [''TRIM''] else [])"
    unfolding b7_def using l6 n by (intro tokens_append_flag) auto
  have t: "tokens b7 = flag_tokens st"
    by (simp only: t7 t6 t5 t4 t3 t2 t1 flag_tokens_def append_assoc)
  have first: "strncat_c [] ''OL'' (room n []) = ''OL''" "strncat_c [] ''OB'' (room n []) = ''OB''"
    using n by (simp_all add: strncat_room)
  have "(int n - 1) mod 4294967296 = int n - 1"
    using n by (intro mod_pos_pos_trivial) linarith+
  then have unk: "strncat_c [] ''UNKNOWN'' (nat ((int n - 1) mod 2 ^ 32)) = ''UNKNOWN''"
    using n by (simp add: strncat_c_def)
  have f: "apc_hid_format_status st n = (if b7 = [] then ''UNKNOWN'' else b7)"
    unfolding apc_hid_format_status_def Let_def b7_def b6_def b5_def b4_def b3_def b2_def b1_def
    using first unk by simp
  have e: "(b7 = []) = (flag_tokens st = [])"
  proof
    assume "b7 = []"
    then show "flag_tokens st = []" using t by (simp add: tokens_def)
  next
    assume "flag_tokens st = []"
    then have "b1 = []" and "\<not> charging st" and "\<not> low_battery st" and "\<not> overload st"
      and "\<not> replace_battery st" and "\<not> boost st" and "\<not> trim st"
      by (auto simp: flag_tokens_def b1_def split: if_splits)
    then show "b7 = []"
      by (simp add: b7_def b6_def b5_def b4_def b3_def b2_def append_flag_def)
  qed
  show "tokens (apc_hid_format_status st n) =
           (if flag_tokens st = [] then [''UNKNOWN''] else flag_tokens st)"
    using f e t by (simp add: tokens_def)
  show "take 2 (apc_hid_format_status st n) = ''OL''" if o: "online st"
  proof -
    obtain x2 where x2: "b2 = b1 @ x2"
      unfolding b2_def using append_flag_appends by blast
    obtain x3 where x3: "b3 = b2 @ x3"
      unfolding b3_def using append_flag_appends by blast
    obtain x4 where x4: "b4 = b3 @ x4"
      unfolding b4_def using append_flag_appends by blast
    obtain x5 where x5: "b5 = b4 @ x5"
      unfolding b5_def using append_flag_appends by blast
    obtain x6 where x6: "b6 = b5 @ x6"
      unfolding b6_def using append_flag_appends by blast
    obtain x7 where x7: "b7 = b6 @ x7"
      unfolding b7_def using append_flag_appends by blast
    have "b7 = ''OL'' @ x2 @ x3 @ x4 @ x5 @ x6 @ x7"
      using o by (simp add: x7 x6 x5 x4 x3 x2 b1_def)
    then show ?thesis using f by simp
  qed
qed

text \<open>
  Claim C10. For every combination of the status flags, the status string (formatted
  into a buffer with room for all tokens, as the 64 bytes of \<open>status_string\<close>) has the
  token "OB" exactly when the discharging flag is set and the online flag is clear; with
  both flags set the string starts with "OL" and has no token "OB".
\<close>

theorem on_battery_token_needs_offline:
  assumes "30 \<le> n" and "n < 4294967296"
  shows "(''OB'' \<in> set (tokens (apc_hid_format_status st n))) = (discharging st \<and> \<not> online st)
       \<and> (online st \<and> discharging st \<longrightarrow>
            take 2 (apc_hid_format_status st n) = ''OL''
            \<and> ''OB'' \<notin> set (tokens (apc_hid_format_status st n)))"
proof -
  have m: "(''OB'' \<in> set (tokens (apc_hid_format_status st n))) = (discharging st \<and> \<not> online st)"
    by (simp add: format_status_tokens(1) [OF assms] flag_tokens_def)
  show ?thesis using m format_status_tokens(2) [OF assms] by simp
qed

theorem on_battery_token_needs_offline_witness:
  "take 2 (apc_hid_format_status (zero_status \<lparr> online := True, discharging := True \<rparr>) 64) = ''OL''
   \<and> ''OB'' \<notin> set (tokens (apc_hid_format_status
                               (zero_status \<lparr> online := True, discharging := True \<rparr>) 64))
   \<and> ''OB'' \<in> set (tokens (apc_hid_format_status (zero_status \<lparr> discharging := True \<rparr>) 64))"
  using on_battery_token_needs_offline [of 64 "zero_status \<lparr> online := True, discharging := True \<rparr>"]
    on_battery_token_needs_offline [of 64 "zero_status \<lparr> discharging := True \<rparr>"]
  by (simp add: zero_status_def)

section \<open>Properties of the decoder\<close>

lemmas parse_unfold = apc_hid_parse_report_def log_hex_dump_def log_hex_dump_reads_def
  decode_fields_def
  reads_def finish_update_def updated_target_def target_of_def

text \<open>
  Claim C5. The charge and runtime report (identifier 0x0C) with the bytes
  \<open>[id, 100, 0x10, 0x0E]\<close> sets the battery charge to 100 and the battery runtime to
  3600, the little-endian 16 bit value 0x0E10 of its bytes 2 and 3. This holds for either
  target and whatever the buffer holds behind the four bytes.
\<close>

theorem charge_runtime_report_decodes:
  "map_option battery_charge (updated_target
      (apc_hid_parse_report 0x0C (Some (0x0C # 100 # 0x10 # 0x0E # rest)) 4 metrics now cur))
     = Some 100
   \<and> map_option battery_runtime (updated_target
      (apc_hid_parse_report 0x0C (Some (0x0C # 100 # 0x10 # 0x0E # rest)) 4 metrics now cur))
     = Some 3600
   \<and> le16 0x10 0x0E = 0x0E10 \<and> float_u16 0x0E10 = 3600"
  by (simp add: parse_unfold float_u8_def float_u16_def le16_def split: option.split)

lemma format_status_examples:
  "apc_hid_format_status \<lparr> online = True, discharging = False, charging = False,
     low_battery = False, overload = False, replace_battery = False, boost = False,
     trim = False \<rparr> 64 = ''OL''"
  "apc_hid_format_status \<lparr> online = False, discharging = True, charging = False,
     low_battery = False, overload = False, replace_battery = False, boost = False,
     trim = False \<rparr> 64 = ''OB''"
  "apc_hid_format_status \<lparr> online = True, discharging = False, charging = True,
     low_battery = False, overload = False, replace_battery = False, boost = False,
     trim = False \<rparr> 64 = ''OL CHRG''"
  "apc_hid_format_status \<lparr> online = False, discharging = False, charging = False,
     low_battery = False, overload = False, replace_battery = False, boost = False,
     trim = False \<rparr> 64 = ''UNKNOWN''"
  by (simp_all add: apc_hid_format_status_def append_flag_fits room_fits strncat_c_def)

text \<open>What the present status report (identifier 0x16) with two bytes writes.\<close>

lemma present_status_decode:
  "updated_target (apc_hid_parse_report 0x16 (Some (0x16 # b # rest)) 2 metrics now cur) =
     Some ((target_of metrics cur)
       \<lparr> status := \<lparr> online = (b AND 0x01) \<noteq> 0, discharging = (b AND 0x02) \<noteq> 0,
            charging = (b AND 0x04) \<noteq> 0, low_battery = (b AND 0x08) \<noteq> 0,
            overload = (b AND 0x10) \<noteq> 0, replace_battery = (b AND 0x20) \<noteq> 0,
            boost = (b AND 0x40) \<noteq> 0, trim = (b AND 0x80) \<noteq> 0 \<rparr>,
          last_update_ms := now, valid := True,
          status_string := apc_hid_format_status
            \<lparr> online = (b AND 0x01) \<noteq> 0, discharging = (b AND 0x02) \<noteq> 0,
              charging = (b AND 0x04) \<noteq> 0, low_battery = (b AND 0x08) \<noteq> 0,
              overload = (b AND 0x10) \<noteq> 0, replace_battery = (b AND 0x20) \<noteq> 0,
              boost = (b AND 0x40) \<noteq> 0, trim = (b AND 0x80) \<noteq> 0 \<rparr> 64 \<rparr>)"
  by (cases "status (target_of metrics cur)") (simp add: parse_unfold split: option.split)

text \<open>
  Claim C6. The detailed status report (identifier 0x16) with status byte 0b00000001
  gives the status string "OL", with 0b00000010 "OB", with 0b00000101 "OL CHRG" in that
  order, and with no flag set the string is "UNKNOWN".
\<close>

theorem present_status_strings:
  "map_option status_string (updated_target
      (apc_hid_parse_report 0x16 (Some (0x16 # 0x01 # rest)) 2 metrics now cur)) = Some ''OL''
   \<and> map_option status_string (updated_target
      (apc_hid_parse_report 0x16 (Some (0x16 # 0x02 # rest)) 2 metrics now cur)) = Some ''OB''
   \<and> map_option status_string (updated_target
      (apc_hid_parse_report 0x16 (Some (0x16 # 0x05 # rest)) 2 metrics now cur))
        = Some ''OL CHRG''
   \<and> map_option status_string (updated_target
      (apc_hid_parse_report 0x16 (Some (0x16 # 0x00 # rest)) 2 metrics now cur))
        = Some ''UNKNOWN''
   \<and> apc_hid_format_status zero_status 64 = ''UNKNOWN''"
  by (simp add: present_status_decode format_status_examples zero_status_def)

text \<open>
  Claim C9. For every report identifier, a call with a null data pointer or with length
  zero returns false and leaves the caller's struct and \<open>current_metrics\<close>, with their
  timestamps and validity flags, as they were.
\<close>

theorem null_or_empty_report_ignored:
  "apc_hid_parse_report report_id None len metrics now cur = Inr (False, metrics, cur)
   \<and> apc_hid_parse_report report_id (Some bytes) 0 metrics now cur = Inr (False, metrics, cur)"
  by (simp add: apc_hid_parse_report_def)

subsection \<open>Short payloads and unknown identifiers\<close>

lemma short4:
  "report_id \<in> {0x0C, 0x06, 0x1C} \<Longrightarrow> len < 4 \<Longrightarrow>
   decode_fields report_id data len t = Inr (False, t)"
  by (elim insertE emptyE; simp add: decode_fields_def)

lemma short07:
  "len < 4 \<Longrightarrow> len = 3 \<longrightarrow> 3 < length data \<Longrightarrow>
   decode_fields 0x07 data len t = Inr (False, t)"
  by (simp add: decode_fields_def reads_def)

lemma short3:
  "report_id \<in> {0x08, 0x09, 0x12, 0x15, 0x17, 0x20, 0x24, 0x25, 0x31, 0x32, 0x33, 0x52}
   \<Longrightarrow> len < 3 \<Longrightarrow> decode_fields report_id data len t = Inr (False, t)"
  by (elim insertE emptyE; simp add: decode_fields_def)

lemma short60:
  "len < 2 \<Longrightarrow> decode_fields 0x60 data len t = Inr (False, t)"
  by (simp add: decode_fields_def)

lemma short2:
  "report_id \<in> {0x0B, 0x0D, 0x0E, 0x0F, 0x10, 0x11, 0x16, 0x18, 0x13, 0x14,
                 0x21, 0x30, 0x50, 0x35, 0x36, 0x03, 0x34}
   \<Longrightarrow> len < 2 \<Longrightarrow> decode_fields report_id data len t = Inr (False, t)"
  by (elim insertE emptyE; simp add: decode_fields_def)

lemma decode_fields_short:
  assumes "required_length report_id = Some k" and "len < k"
    and "report_id = 0x60 \<longrightarrow> len < 2"
    and "report_id = 0x07 \<and> len = 3 \<longrightarrow> 3 < length data"
  shows "decode_fields report_id data len t = Inr (False, t)"
proof (cases "report_id \<in> {0x0C, 0x06, 0x1C, 0x07}")
  case True
  then have k: "k = 4" using assms(1) unfolding required_length_def
    by (simp only: if_True option.inject)
  show ?thesis
  proof (cases "report_id = 0x07")
    case True
    then show ?thesis using k assms(2,4) short07 [of len data t] by simp
  next
    case False
    then have "report_id \<in> {0x0C, 0x06, 0x1C}" using True by simp
    then show ?thesis using k assms(2) short4 by blast
  qed
next
  case n4: False
  show ?thesis
  proof (cases "report_id \<in> {0x08, 0x09, 0x12, 0x15, 0x17, 0x20, 0x24, 0x25, 0x31, 0x32,
                               0x33, 0x52, 0x60}")
    case True
    then have k: "k = 3" using assms(1) n4 unfolding required_length_def
      by (simp only: if_True if_False option.inject)
    show ?thesis
    proof (cases "report_id = 0x60")
      case True
      then show ?thesis using assms(3) short60 [of len data t] by simp
    next
      case False
      then have "report_id \<in> {0x08, 0x09, 0x12, 0x15, 0x17, 0x20, 0x24, 0x25, 0x31, 0x32,
                                0x33, 0x52}"
        using True by simp
      then show ?thesis using k assms(2) short3 by blast
    qed
  next
    case n3: False
    show ?thesis
    proof (cases "report_id \<in> {0x0B, 0x0D, 0x0E, 0x0F, 0x10, 0x11, 0x16, 0x18, 0x13, 0x14,
                                 0x21, 0x30, 0x50, 0x35, 0x36, 0x03, 0x34}")
      case True
      then have "k = 2" using assms(1) n4 n3 unfolding required_length_def
        by (simp only: if_True if_False option.inject)
      then show ?thesis using True assms(2) short2 by blast
    next
      case False
      then have "False" using assms(1) n4 n3 unfolding required_length_def
        by (simp only: if_True if_False option.distinct)
      then show ?thesis ..
    qed
  qed
qed

lemma decode_fields_unknown:
  assumes "required_length report_id = None"
  shows "decode_fields report_id data len t = Inr (False, t)"
proof -
  have "report_id \<notin> {0x0C, 0x06, 0x1C, 0x07}"
    and "report_id \<notin> {0x08, 0x09, 0x12, 0x15, 0x17, 0x20, 0x24, 0x25, 0x31, 0x32,
                         0x33, 0x52, 0x60}"
    and "report_id \<notin> {0x0B, 0x0D, 0x0E, 0x0F, 0x10, 0x11, 0x16, 0x18, 0x13, 0x14,
                         0x21, 0x30, 0x50, 0x35, 0x36, 0x03, 0x34}"
    using assms unfolding required_length_def by (metis option.distinct(1))+
  then show ?thesis
    by (simp add: decode_fields_def)
qed

text \<open>
  What the decoder does keep of the rule: away from the two-byte report 0x60 and with a
  length below 64, a report shorter than its identifier requires, and a report whose
  identifier has no case, makes the call return false with both structs as they were.
  The buffer holds the announced bytes, and the fourth byte the case 0x07 logs.
\<close>

lemma short_or_unknown_report_no_update:
  assumes "(\<exists>k. required_length report_id = Some k \<and> len < k) \<or> required_length report_id = None"
    and "report_id = 0x60 \<longrightarrow> len < 2"
    and "len < 64" and "len \<le> length bytes"
    and "report_id = 0x07 \<and> len = 3 \<longrightarrow> 3 < length bytes"
  shows "apc_hid_parse_report report_id (Some bytes) len metrics now cur
           = Inr (False, metrics, cur)"
proof -
  have d: "decode_fields report_id bytes len (case metrics of None \<Rightarrow> cur | Some m \<Rightarrow> m)
        = Inr (False, case metrics of None \<Rightarrow> cur | Some m \<Rightarrow> m)"
    using assms(1)
  proof (elim disjE exE conjE)
    fix k
    assume "required_length report_id = Some k" and "len < k"
    then show ?thesis by (rule decode_fields_short [OF _ _ assms(2,5)])
  next
    assume "required_length report_id = None"
    then show ?thesis by (rule decode_fields_unknown)
  qed
  have l: "log_hex_dump bytes len = None"
    using assms(3,4) by (simp add: log_hex_dump_def log_hex_dump_reads_def)
  show ?thesis
    using d l
    by (simp add: apc_hid_parse_report_def finish_update_def split: option.split)
qed

lemma short_or_unknown_report_no_update_examples:
  "apc_hid_parse_report 0x0C (Some [0x0C, 100]) 2 None 7 apc_hid_parser_init
     = Inr (False, None, apc_hid_parser_init)
   \<and> apc_hid_parse_report 0xFF (Some [0xFF, 1, 2, 3, 4]) 5 None 7 apc_hid_parser_init
     = Inr (False, None, apc_hid_parser_init)"
proof -
  have a: "(\<exists>k. required_length (0x0C :: u8) = Some k \<and> (2 :: nat) < k)
           \<or> required_length (0x0C :: u8) = None"
    by (simp add: required_length_def)
  have b: "(\<exists>k. required_length (0xFF :: u8) = Some k \<and> (5 :: nat) < k)
           \<or> required_length (0xFF :: u8) = None"
    by (simp add: required_length_def)
  show ?thesis
    using short_or_unknown_report_no_update [OF a, of "[0x0C, 100]" None 7 apc_hid_parser_init]
      short_or_unknown_report_no_update [OF b, of "[0xFF, 1, 2, 3, 4]" None 7 apc_hid_parser_init]
    by simp
qed

text \<open>
  Claim C4, at two reports in the 64 byte buffer of the task. The firmware version
  report 0x60 requires three bytes, its case takes \<open>data[1]\<close> and \<open>data[2]\<close>, but its
  guard is \<open>length >= 2\<close>: with two bytes the call returns true and writes the firmware
  version from a byte behind the payload, the timestamp, the validity flag and the
  status string, where the claim has no update. A report of 64 bytes with an identifier
  that has no case never reaches the \<open>switch\<close>: the logging stores past the end of its
  array \<open>ascii_str\<close>, where the claim has a call that returns false.
\<close>

theorem short_firmware_report_updates_snapshot:
  "required_length 0x60 = Some 3
   \<and> apc_hid_parse_report 0x60 (Some ([0x60, 1, 7] @ replicate 61 0)) 2 None 5
        apc_hid_parser_init
     = Inr (True, None, apc_hid_parser_init \<lparr> firmware_version := ''1.7'',
              last_update_ms := 5, valid := True, status_string := ''UNKNOWN'' \<rparr>)
   \<and> required_length 0xFF = None
   \<and> apc_hid_parse_report 0xFF (Some (replicate 64 0xFF)) 64 None 5 apc_hid_parser_init
     = Inl Log_buffer_overflow"
  by (simp add: required_length_def parse_unfold apc_hid_parser_init_def zero_metrics_def
      zero_status_def format_status_examples decimal.simps snprintf_cut_def)

subsection \<open>The validity flag\<close>

lemma decode_fields_valid:
  "decode_fields report_id data len t = Inr (u, t') \<Longrightarrow> valid t' = valid t"
  by (auto simp: decode_fields_def reads_def split: if_splits)

text \<open>A call that returns either changed nothing or ran the \<open>switch\<close> on its target.\<close>

lemma parse_Inr:
  assumes "apc_hid_parse_report report_id (Some bytes) len metrics now cur = Inr (u, mo', cur')"
  shows "(len = 0 \<and> \<not> u \<and> mo' = metrics \<and> cur' = cur) \<or>
         (\<exists>r. decode_fields report_id bytes len (target_of metrics cur) = Inr r \<and>
              u = fst r \<and> target_of mo' cur' = snd (finish_update now r) \<and>
              (case metrics of None \<Rightarrow> mo' = None | Some m \<Rightarrow> cur' = cur \<and> mo' \<noteq> None))"
  using assms
  by (auto simp: apc_hid_parse_report_def target_of_def finish_update_def
           split: if_splits sum.splits option.splits)

lemma parse_valid:
  assumes "apc_hid_parse_report report_id data len metrics now cur = Inr (u, mo', cur')"
  shows "valid (target_of mo' cur') = (u \<or> valid (target_of metrics cur))"
    and "metrics \<noteq> None \<Longrightarrow> cur' = cur"
    and "metrics = None \<Longrightarrow> mo' = None"
proof -
  show "valid (target_of mo' cur') = (u \<or> valid (target_of metrics cur))"
  proof (cases data)
    case None
    then show ?thesis using assms by (simp add: apc_hid_parse_report_def)
  next
    case (Some bytes)
    from parse_Inr [OF assms [unfolded Some]] show ?thesis
    proof
      assume "len = 0 \<and> \<not> u \<and> mo' = metrics \<and> cur' = cur"
      then show ?thesis by simp
    next
      assume "\<exists>r. decode_fields report_id bytes len (target_of metrics cur) = Inr r \<and>
              u = fst r \<and> target_of mo' cur' = snd (finish_update now r) \<and>
              (case metrics of None \<Rightarrow> mo' = None | Some m \<Rightarrow> cur' = cur \<and> mo' \<noteq> None)"
      then obtain r where d: "decode_fields report_id bytes len (target_of metrics cur) = Inr r"
        and u: "u = fst r" and t: "target_of mo' cur' = snd (finish_update now r)" by blast
      have "valid (snd r) = valid (target_of metrics cur)"
        using decode_fields_valid [of report_id bytes len "target_of metrics cur" "fst r" "snd r"] d
        by simp
      then show ?thesis using u t by (simp add: finish_update_def)
    qed
  qed
  show "cur' = cur" if "metrics \<noteq> None"
    using assms that
    by (auto simp: apc_hid_parse_report_def split: option.splits if_splits sum.splits)
  show "mo' = None" if "metrics = None"
    using assms that
    by (auto simp: apc_hid_parse_report_def split: option.splits if_splits sum.splits)
qed

lemma do_step_valid:
  assumes "do_step s cur = Inr (f, cur')"
  shows "valid cur' = (f \<or> valid cur)"
proof (cases s)
  case (Decoder_call report_id data len metrics now)
  then obtain x where p: "apc_hid_parse_report report_id data len metrics now cur = Inr x"
    and f: "f = (case metrics of None \<Rightarrow> fst x | Some m \<Rightarrow> False)" and c: "cur' = snd (snd x)"
    using assms by (auto split: sum.splits)
  have p': "apc_hid_parse_report report_id data len metrics now cur
              = Inr (fst x, fst (snd x), cur')"
    using p c by simp
  show ?thesis
  proof (cases metrics)
    case None
    then show ?thesis using parse_valid(1,3) [OF p'] f by (simp add: target_of_def)
  next
    case (Some m)
    then show ?thesis using parse_valid(2) [OF p'] f by simp
  qed
next
  case (Pushed_result e buf len now)
  show ?thesis
  proof (cases "e = ESP_OK \<and> len > 0")
    case True
    then obtain x where p: "apc_hid_parse_report (buf ! 0) (Some buf) len None now cur = Inr x"
      and f: "f = fst x" and c: "cur' = snd (snd x)"
      using assms Pushed_result
      by (auto simp: on_pushed_report_def on_parsed_def split: sum.splits if_splits)
    have p': "apc_hid_parse_report (buf ! 0) (Some buf) len None now cur
                = Inr (f, fst (snd x), cur')"
      using p c f by simp
    show ?thesis using parse_valid(1,3) [OF p'] by (simp add: target_of_def)
  next
    case False
    then show ?thesis using assms Pushed_result by (auto simp: on_pushed_report_def)
  qed
next
  case (Polled_result report_id e buf len now)
  show ?thesis
  proof (cases "e = ESP_OK \<and> len > 0")
    case True
    then obtain x where p: "apc_hid_parse_report report_id (Some buf) len None now cur = Inr x"
      and f: "f = fst x" and c: "cur' = snd (snd x)"
      using assms Polled_result
      by (auto simp: on_polled_report_def on_parsed_def split: sum.splits if_splits)
    have p': "apc_hid_parse_report report_id (Some buf) len None now cur
                = Inr (f, fst (snd x), cur')"
      using p c f by simp
    show ?thesis using parse_valid(1,3) [OF p'] by (simp add: target_of_def)
  next
    case False
    then show ?thesis using assms Polled_result by (auto simp: on_polled_report_def)
  qed
qed

lemma run_steps_valid:
  "run_steps steps cur = Inr (flags, cur') \<Longrightarrow> valid cur' = (valid cur \<or> True \<in> set flags)"
proof (induction steps arbitrary: cur flags)
  case Nil
  then show ?case by simp
next
  case (Cons s ss)
  from Cons.prems obtain x y where s: "do_step s cur = Inr x"
    and r: "run_steps ss (snd x) = Inr y" and fl: "flags = fst x # fst y" and c: "cur' = snd y"
    by (auto split: sum.splits)
  have "valid (snd x) = (fst x \<or> valid cur)"
    using do_step_valid [of s cur "fst x" "snd x"] s by simp
  moreover have "valid cur' = (valid (snd x) \<or> True \<in> set (fst y))"
    using Cons.IH [of "snd x" "fst y"] r c by simp
  ultimately show ?case using fl by auto
qed

text \<open>
  With its buffer of 64 bytes the task never meets an out-of-bounds read, and with a
  reported length below 64 the logging stays inside its array, so every history of such
  reads and requests runs through.
\<close>

lemma decode_fields_total:
  "5 \<le> length data \<Longrightarrow> \<exists>r. decode_fields report_id data len t = Inr r"
  by (auto simp: decode_fields_def reads_def)

lemma task_step_total:
  assumes "length buf = 64" and "len < 64"
  shows "\<exists>r. on_pushed_report e buf len now cur = Inr r"
    and "\<exists>r. on_polled_report report_id e buf len now cur = Inr r"
proof -
  have d: "\<exists>r. decode_fields i buf len cur = Inr r" for i
    using assms(1) decode_fields_total [of buf i len cur] by simp
  show "\<exists>r. on_pushed_report e buf len now cur = Inr r"
    using assms d [of "buf ! 0"]
    by (auto simp: on_pushed_report_def on_parsed_def apc_hid_parse_report_def
        log_hex_dump_def log_hex_dump_reads_def)
  show "\<exists>r. on_polled_report report_id e buf len now cur = Inr r"
    using assms d [of report_id]
    by (auto simp: on_polled_report_def on_parsed_def apc_hid_parse_report_def
        log_hex_dump_def log_hex_dump_reads_def)
qed

text \<open>
  Claim C3. The validity flag is false after initialisation. Over every history of
  decoder calls and transfer outcomes (timeouts, stalls, short payloads, unknown
  identifiers, further decodes) that runs through, the flag of \<open>current_metrics\<close> at the
  end is true exactly when it was true at the start or some step updated
  \<open>current_metrics\<close>: it becomes true with the first update and no later step makes it
  false again.
\<close>

theorem validity_flag_never_reverts:
  assumes "run_steps steps cur = Inr (flags, cur')"
  shows "\<not> valid apc_hid_parser_init \<and> valid cur' = (valid cur \<or> True \<in> set flags)"
  using run_steps_valid [OF assms]
  by (simp add: apc_hid_parser_init_def zero_metrics_def)

theorem validity_flag_never_reverts_witness:
  "run_steps sample_history apc_hid_parser_init =
     Inr ([False, True, False, False, False, False],
          apc_hid_parser_init \<lparr> battery_charge := 100, battery_runtime := 3600,
            last_update_ms := 20, valid := True, status_string := ''UNKNOWN'' \<rparr>)
   \<and> valid (apc_hid_parser_init \<lparr> battery_charge := 100, battery_runtime := 3600,
            last_update_ms := 20, valid := True, status_string := ''UNKNOWN'' \<rparr>)"
proof -
  have e: "run_steps sample_history apc_hid_parser_init =
     Inr ([False, True, False, False, False, False],
          apc_hid_parser_init \<lparr> battery_charge := 100, battery_runtime := 3600,
            last_update_ms := 20, valid := True, status_string := ''UNKNOWN'' \<rparr>)"
    by (simp add: sample_history_def on_pushed_report_def on_polled_report_def on_parsed_def
        parse_unfold float_u8_def float_u16_def le16_def ESP_OK_def ESP_ERR_TIMEOUT_def
        ESP_ERR_NOT_SUPPORTED_def apc_hid_parser_init_def zero_metrics_def zero_status_def
        format_status_examples)
  show ?thesis
    using validity_flag_never_reverts [OF e] e by simp
qed

subsection \<open>The status flags\<close>

lemma decode_fields_status:
  assumes "decode_fields report_id data len t = Inr (u, t')"
  shows "status t' =
     (if u \<and> report_id = 0x16 then
        \<lparr> online = (data ! 1 AND 0x01) \<noteq> 0, discharging = (data ! 1 AND 0x02) \<noteq> 0,
          charging = (data ! 1 AND 0x04) \<noteq> 0, low_battery = (data ! 1 AND 0x08) \<noteq> 0,
          overload = (data ! 1 AND 0x10) \<noteq> 0, replace_battery = (data ! 1 AND 0x20) \<noteq> 0,
          boost = (data ! 1 AND 0x40) \<noteq> 0, trim = (data ! 1 AND 0x80) \<noteq> 0 \<rparr>
      else if u \<and> report_id = 0x06 then
        (status t) \<lparr> online := (data ! 3 AND 0x08) \<noteq> 0,
          discharging := (data ! 3 AND 0x01) \<noteq> 0,
          charging := (data ! 3 AND 0x02) \<noteq> 0,
          low_battery := (data ! 3 AND 0x04) \<noteq> 0 \<rparr>
      else status t)"
  using assms
  by (cases "status t") (auto simp: decode_fields_def reads_def split: if_splits)

text \<open>
  Claim C2, as the code has it. When the report 0x16 decodes, all eight flags are
  written from its byte 1. When the report 0x06 decodes, only online, discharging,
  charging and low-battery are written, from the bits 0x08, 0x01, 0x02 and 0x04 of its
  byte 3; overload, replace-battery, boost and trim keep their values. Every other
  report, and every call that returns false, leaves the flags of its target as they were.
\<close>

theorem status_flags_written_by_status_reports:
  assumes "apc_hid_parse_report report_id (Some bytes) len metrics now cur = Inr (u, mo', cur')"
  shows "status (target_of mo' cur') =
     (if u \<and> report_id = 0x16 then
        \<lparr> online = (bytes ! 1 AND 0x01) \<noteq> 0, discharging = (bytes ! 1 AND 0x02) \<noteq> 0,
          charging = (bytes ! 1 AND 0x04) \<noteq> 0, low_battery = (bytes ! 1 AND 0x08) \<noteq> 0,
          overload = (bytes ! 1 AND 0x10) \<noteq> 0, replace_battery = (bytes ! 1 AND 0x20) \<noteq> 0,
          boost = (bytes ! 1 AND 0x40) \<noteq> 0, trim = (bytes ! 1 AND 0x80) \<noteq> 0 \<rparr>
      else if u \<and> report_id = 0x06 then
        (status (target_of metrics cur)) \<lparr> online := (bytes ! 3 AND 0x08) \<noteq> 0,
          discharging := (bytes ! 3 AND 0x01) \<noteq> 0,
          charging := (bytes ! 3 AND 0x02) \<noteq> 0,
          low_battery := (bytes ! 3 AND 0x04) \<noteq> 0 \<rparr>
      else status (target_of metrics cur))"
  using parse_Inr [OF assms]
proof
  assume "len = 0 \<and> \<not> u \<and> mo' = metrics \<and> cur' = cur"
  then show ?thesis by simp
next
  assume "\<exists>r. decode_fields report_id bytes len (target_of metrics cur) = Inr r \<and>
              u = fst r \<and> target_of mo' cur' = snd (finish_update now r) \<and>
              (case metrics of None \<Rightarrow> mo' = None | Some m \<Rightarrow> cur' = cur \<and> mo' \<noteq> None)"
  then obtain r where d: "decode_fields report_id bytes len (target_of metrics cur) = Inr r"
    and u: "u = fst r" and t: "target_of mo' cur' = snd (finish_update now r)" by blast
  have s: "status (snd (finish_update now r)) = status (snd r)"
    by (simp add: finish_update_def)
  show ?thesis
    using decode_fields_status [of report_id bytes len "target_of metrics cur" "fst r" "snd r"]
      d u t s
    by simp
qed

text \<open>
  The report 0x06 with online set, decoded onto a snapshot whose overload flag is set:
  the overload flag stays, the four flags of the report are written.
\<close>

theorem status_flags_written_by_status_reports_witness:
  "apc_hid_parse_report 0x06 (Some [0x06, 0, 0, 0x08]) 4 None 0
      (apc_hid_parser_init \<lparr> status := zero_status \<lparr> overload := True \<rparr> \<rparr>)
     = Inr (True, None,
         apc_hid_parser_init \<lparr> status := zero_status \<lparr> overload := True, online := True \<rparr>,
           last_update_ms := 0, valid := True, status_string := ''OL OVER'' \<rparr>)
   \<and> status (apc_hid_parser_init
         \<lparr> status := zero_status \<lparr> overload := True, online := True \<rparr>,
           last_update_ms := 0, valid := True, status_string := ''OL OVER'' \<rparr>)
     = zero_status \<lparr> online := True, overload := True \<rparr>"
proof -
  have e: "apc_hid_parse_report 0x06 (Some [0x06, 0, 0, 0x08]) 4 None 0
      (apc_hid_parser_init \<lparr> status := zero_status \<lparr> overload := True \<rparr> \<rparr>)
     = Inr (True, None,
         apc_hid_parser_init \<lparr> status := zero_status \<lparr> overload := True, online := True \<rparr>,
           last_update_ms := 0, valid := True, status_string := ''OL OVER'' \<rparr>)"
    by (simp add: parse_unfold apc_hid_parser_init_def zero_metrics_def zero_status_def
        apc_hid_format_status_def append_flag_fits room_fits strncat_c_def)
  show ?thesis
    using status_flags_written_by_status_reports [OF e] e
    by (simp add: target_of_def zero_status_def)
qed

text \<open>
  Against claim C2 as stated: the same report 0x06, with no bit set, leaves the
  overload flag set on a snapshot that had it set and clear on the initial snapshot. The
  flag is not written from the payload.
\<close>

theorem status_report_06_keeps_overload:
  "map_option overload (map_option status (updated_target
      (apc_hid_parse_report 0x06 (Some [0x06, 0, 0, 0]) 4 None 0
         (apc_hid_parser_init \<lparr> status := zero_status \<lparr> overload := True \<rparr> \<rparr>))))
     = Some True
   \<and> map_option overload (map_option status (updated_target
      (apc_hid_parse_report 0x06 (Some [0x06, 0, 0, 0]) 4 None 0 apc_hid_parser_init)))
     = Some False"
  by (simp add: parse_unfold apc_hid_parser_init_def zero_metrics_def zero_status_def)

section \<open>Properties of the transfer coordinator\<close>

subsection \<open>The two waits\<close>

text \<open>The bounded wait finds the completion exactly when one of its attempts, counted
  from \<open>n\<close> while the waited time stays below two seconds, obtains the semaphore.\<close>

lemma wait_for_callback_fst:
  "fst (wait_for_callback sem w n) = (\<exists>i. w + 10 * int i < 2000 \<and> sem (n + i))"
proof (induction sem w n rule: wait_for_callback.induct)
  case (1 sem waited_ms polls)
  show ?case
  proof (cases "waited_ms < max_wait_ms")
    case False
    then have "\<not> (\<exists>i. waited_ms + 10 * int i < 2000 \<and> sem (polls + i))"
      by (auto simp: max_wait_ms_def)
    then show ?thesis using False by (subst wait_for_callback.simps) simp
  next
    case True
    show ?thesis
    proof (cases "sem polls")
      case s: True
      have "waited_ms + 10 * int 0 < 2000 \<and> sem (polls + 0)"
        using True s by (simp add: max_wait_ms_def)
      then have "\<exists>i. waited_ms + 10 * int i < 2000 \<and> sem (polls + i)" by blast
      then show ?thesis using True s by (subst wait_for_callback.simps) simp
    next
      case s: False
      have ih: "fst (wait_for_callback sem (waited_ms + poll_interval_ms) (Suc polls)) =
          (\<exists>i. waited_ms + poll_interval_ms + 10 * int i < 2000 \<and> sem (Suc polls + i))"
        using "1.IH" [OF True s] .
      have "(\<exists>i. waited_ms + poll_interval_ms + 10 * int i < 2000 \<and> sem (Suc polls + i)) =
            (\<exists>i. waited_ms + 10 * int i < 2000 \<and> sem (polls + i))" (is "?L = ?R")
      proof
        assume ?L
        then obtain i where "waited_ms + poll_interval_ms + 10 * int i < 2000"
          and "sem (Suc polls + i)"
          by blast
        then have "waited_ms + 10 * int (Suc i) < 2000 \<and> sem (polls + Suc i)"
          by (simp add: poll_interval_ms_def)
        then show ?R by blast
      next
        assume ?R
        then obtain i where i: "waited_ms + 10 * int i < 2000" "sem (polls + i)" by blast
        then have "i \<noteq> 0" using s by (cases i) auto
        then obtain j where "i = Suc j" by (cases i) auto
        then have "waited_ms + poll_interval_ms + 10 * int j < 2000 \<and> sem (Suc polls + j)"
          using i by (simp add: poll_interval_ms_def)
        then show ?L by blast
      qed
      then show ?thesis using True s ih by (subst wait_for_callback.simps) simp
    qed
  qed
qed

text \<open>From the start that is 200 attempts.\<close>

lemma wait_for_callback_window:
  "fst (wait_for_callback sem 0 0) = (\<exists>i<200. sem i)"
proof -
  have "(\<exists>i. 0 + 10 * int i < 2000 \<and> sem (0 + i)) = (\<exists>i<200. sem i)"
    by (rule arg_cong [where f = Ex], rule ext) auto
  then show ?thesis using wait_for_callback_fst [of sem 0 0] by simp
qed

text \<open>The unbounded wait returns as soon as some later attempt obtains the semaphore.\<close>

lemma wait_for_late_callback_returns:
  "sem (n + k) \<Longrightarrow> wait_for_late_callback sem n \<noteq> None"
proof (induction k arbitrary: n)
  case 0
  then show ?case by (subst wait_for_late_callback.simps) simp
next
  case (Suc k)
  then have "wait_for_late_callback sem (Suc n) \<noteq> None" by simp
  then show ?case by (subst wait_for_late_callback.simps) simp
qed

subsection \<open>read\_hid\_report waits for the completion\<close>

text \<open>
  Every call of \<open>read_hid_report\<close> that returns has freed its submitted transfer only
  after observing the completion, and the call returns whenever the completion callback
  fires at some attempt, however late.
\<close>

lemma read_hid_report_release_gated:
  "read_hid_report env n = Some r \<Longrightarrow> release_gated False False (trace r)"
  by (auto simp: read_hid_report_def failed_def Let_def split: if_splits option.splits)

lemma read_hid_report_returns:
  assumes "\<exists>i. snd (wait_for_callback (sem_take env) 0 0) \<le> i \<and> sem_take env i"
  shows "read_hid_report env n \<noteq> None"
proof -
  obtain i where "snd (wait_for_callback (sem_take env) 0 0) \<le> i" and "sem_take env i"
    using assms by blast
  then have "sem_take env (snd (wait_for_callback (sem_take env) 0 0)
       + (i - snd (wait_for_callback (sem_take env) 0 0)))"
    by simp
  then have "wait_for_late_callback (sem_take env)
       (snd (wait_for_callback (sem_take env) 0 0)) \<noteq> None"
    by (rule wait_for_late_callback_returns)
  then show ?thesis
    by (auto simp: read_hid_report_def Let_def split: option.splits)
qed

subsection \<open>get\_hid\_report\<close>

lemma get_hid_report_timeout:
  assumes "submitted env" and "\<forall>i<200. \<not> sem_take env i"
  shows "get_hid_report env n = failed ESP_ERR_NOT_SUPPORTED
          [Mutex_take, Transfer_alloc, Transfer_submit, Transfer_free, Mutex_give]"
  using assms wait_for_callback_window [of "sem_take env"]
  by (auto simp: get_hid_report_def submitted_def)

lemma get_hid_report_completed:
  assumes "submitted env" and "\<exists>i<200. sem_take env i"
  shows "(err (get_hid_report env n) = ESP_ERR_NOT_SUPPORTED)
           = (xfer_status env = USB_TRANSFER_STATUS_STALL)"
    and "xfer_status env \<noteq> USB_TRANSFER_STATUS_COMPLETED \<Longrightarrow>
         xfer_status env \<noteq> USB_TRANSFER_STATUS_STALL \<Longrightarrow>
         err (get_hid_report env n) = ESP_FAIL"
    and "xfer_status env = USB_TRANSFER_STATUS_STALL \<Longrightarrow>
         actual_length (get_hid_report env n) = None \<and> copied (get_hid_report env n) = None"
    and "release_gated False False (trace (get_hid_report env n))"
  using assms wait_for_callback_window [of "sem_take env"]
  by (auto simp: get_hid_report_def submitted_def failed_def Let_def ESP_OK_def ESP_FAIL_def
      ESP_ERR_NOT_SUPPORTED_def ESP_ERR_INVALID_SIZE_def)

text \<open>
  Claim C1, at the device that answers late. \<open>get_hid_report\<close> gives up after its 200
  attempts and frees the transfer it has submitted without having observed the
  completion: the trace has no \<open>Completion_observed\<close> before \<open>Transfer_free\<close>. The
  claim asks for an unconditional wait before the transfer is freed, as
  \<open>read_hid_report\<close> does (\<open>read_hid_report_release_gated\<close>).
\<close>

theorem get_hid_report_frees_unfinished_transfer:
  "trace (get_hid_report late_device 64)
     = [Mutex_take, Transfer_alloc, Transfer_submit, Transfer_free, Mutex_give]
   \<and> \<not> release_gated False False (trace (get_hid_report late_device 64))
   \<and> err (get_hid_report late_device 64) = ESP_ERR_NOT_SUPPORTED"
proof -
  have s: "submitted late_device" by (simp add: submitted_def late_device_def)
  have t: "\<forall>i<200. \<not> sem_take late_device i" by (simp add: late_device_def)
  show ?thesis
    by (simp add: get_hid_report_timeout [OF s t] failed_def)
qed

text \<open>
  Claim C7. For every feature-report request whose transfer completes within the wait,
  the returned code is \<open>ESP_ERR_NOT_SUPPORTED\<close> exactly when the transfer status is a
  stall; every other failed status returns \<open>ESP_FAIL\<close>, a different code.
\<close>

theorem stall_distinguished_from_failure:
  assumes "submitted env" and "\<exists>i<200. sem_take env i"
  shows "(err (get_hid_report env n) = ESP_ERR_NOT_SUPPORTED)
           = (xfer_status env = USB_TRANSFER_STATUS_STALL)
       \<and> (xfer_status env \<noteq> USB_TRANSFER_STATUS_COMPLETED
            \<and> xfer_status env \<noteq> USB_TRANSFER_STATUS_STALL
          \<longrightarrow> err (get_hid_report env n) = ESP_FAIL)
       \<and> ESP_FAIL \<noteq> ESP_ERR_NOT_SUPPORTED"
  using get_hid_report_completed(1,2) [OF assms]
  by (simp add: ESP_FAIL_def ESP_ERR_NOT_SUPPORTED_def)

theorem stall_distinguished_from_failure_witness:
  "err (get_hid_report stalling_device 64) = ESP_ERR_NOT_SUPPORTED
   \<and> err (get_hid_report (stalling_device \<lparr> xfer_status := USB_TRANSFER_STATUS_ERROR \<rparr>) 64)
       = ESP_FAIL
   \<and> submitted stalling_device \<and> sem_take stalling_device 3"
proof -
  have s: "submitted stalling_device"
    and s': "submitted (stalling_device \<lparr> xfer_status := USB_TRANSFER_STATUS_ERROR \<rparr>)"
    by (simp_all add: submitted_def stalling_device_def)
  have "(3 :: nat) < 200 \<and> sem_take stalling_device 3" by (simp add: stalling_device_def)
  then have c: "\<exists>i<200. sem_take stalling_device i" by blast
  then have c': "\<exists>i<200. sem_take (stalling_device \<lparr> xfer_status := USB_TRANSFER_STATUS_ERROR \<rparr>) i"
    by simp
  show ?thesis
    using stall_distinguished_from_failure [OF s c, of 64]
      stall_distinguished_from_failure [OF s' c', of 64] s
    by (simp add: stalling_device_def)
qed

text \<open>
  Claim C8. A feature-report request whose bounded wait runs out with no completion
  observed returns \<open>ESP_ERR_NOT_SUPPORTED\<close>, the code a stalled request returns, and like
  it writes neither the length nor the buffer: the caller cannot tell the two apart.
\<close>

theorem timeout_reported_as_not_supported:
  assumes "submitted env" and "\<forall>i<200. \<not> sem_take env i"
    and "submitted env'" and "\<exists>i<200. sem_take env' i"
    and "xfer_status env' = USB_TRANSFER_STATUS_STALL"
  shows "err (get_hid_report env n) = ESP_ERR_NOT_SUPPORTED
       \<and> err (get_hid_report env n) = err (get_hid_report env' n')
       \<and> actual_length (get_hid_report env n) = actual_length (get_hid_report env' n')
       \<and> copied (get_hid_report env n) = copied (get_hid_report env' n')"
  using get_hid_report_timeout [OF assms(1,2), of n]
    get_hid_report_completed(1,3) [OF assms(3,4), of n'] assms(5)
  by (simp add: failed_def)

theorem timeout_reported_as_not_supported_witness:
  "err (get_hid_report late_device 64) = ESP_ERR_NOT_SUPPORTED
   \<and> err (get_hid_report late_device 64) = err (get_hid_report stalling_device 64)
   \<and> xfer_status late_device = USB_TRANSFER_STATUS_COMPLETED
   \<and> xfer_status stalling_device = USB_TRANSFER_STATUS_STALL"
proof -
  have s: "submitted late_device" and s': "submitted stalling_device"
    by (simp_all add: submitted_def late_device_def stalling_device_def)
  have t: "\<forall>i<200. \<not> sem_take late_device i" by (simp add: late_device_def)
  have "(3 :: nat) < 200 \<and> sem_take stalling_device 3" by (simp add: stalling_device_def)
  then have c: "\<exists>i<200. sem_take stalling_device i" by blast
  have st: "xfer_status stalling_device = USB_TRANSFER_STATUS_STALL"
    by (simp add: stalling_device_def)
  show ?thesis
    using timeout_reported_as_not_supported [OF s t s' c st, of 64 64] st
    by (simp add: late_device_def)
qed

end
